theory Spec2Isabelle
  imports Main "HOL-Library.Sublist"
begin

section \<open>The transaction wrapper of package db\<close>

subsection \<open>Data model\<close>

text \<open>
  Modelled from the spec: the types \<open>Query\<close> and \<open>Queryx\<close> are declared in a file of
  package db outside the sources at hand. A \<open>Query\<close> is a string; a \<open>Queryx\<close> pairs it
  (field \<open>Query\<close>) with its positional parameters (field \<open>Params\<close>, Go's
  \<open>[]interface{}\<close>, here a list of dynamically typed values), as the wrapper reads them.
\<close>

type_synonym Query = string

datatype param = PNil | PInt int | PString string | PBool bool

record Queryx =
  Query :: Query
  Params :: "param list"

text \<open>
  \<open>*sqlx.Stmt\<close> and \<open>*sqlx.Tx\<close> are pointers into the external library; the wrapper only
  stores, compares and passes them on, so a handle is all the model needs.
\<close>

type_synonym Stmt = nat
type_synonym sqlx_Tx = nat

text \<open>
  Modelled from the spec: the sentinel errors \<open>ErrNoGetterFound\<close> ... \<open>ErrNoDeleterFound\<close>
  are declared in a file of package db that is not part of the sources at hand; the spec
  lists one fixed sentinel per dispatch operation. Every other value of Go's \<open>error\<close>
  interface comes from the driver or from a delegate and is \<open>DriverError\<close> with its text.
  A nil \<open>error\<close> is \<open>None\<close>.
\<close>

datatype error =
    ErrNoGetterFound
  | ErrNoInserterFound
  | ErrNoUpdaterFound
  | ErrNoInsertOrUpdaterFound
  | ErrNoDeleterFound
  | DriverError string

text \<open>
  Modelled from the spec: the capability interfaces (\<open>Getter\<close>, \<open>Inserter\<close>, \<open>Updater\<close>,
  \<open>InsertOrUpdater\<close>, \<open>Deleter\<close>, \<open>Selecter\<close>) are declared outside the sources at hand; each
  is a single-method contract. An object \<open>o interface{}\<close> is its pointer, the name of its
  dynamic type (what \<open>reflect.TypeOf\<close> prints) and the capabilities its method set
  satisfies; the type assertion \<open>o.(Getter)\<close> succeeds exactly when \<open>Getter\<close> is among them.
\<close>

datatype capability = Getter | Inserter | Updater | InsertOrUpdater | Deleter | Selecter

record object =
  ptr :: nat
  type_name :: string
  method_set :: "capability list"

definition implements :: "object \<Rightarrow> capability \<Rightarrow> bool" where
  "implements obj c = (c \<in> set (method_set obj))"

text \<open>
  Everything the wrapper does to the outside is recorded, in order, in a trace: calls on
  the underlying transaction and on prepared statements, calls of an object's delegate
  method, and lines handed to the package-level logger. A delegate is handed the embedded
  \<open>*sqlx.Tx\<close>, never the wrapper, and is taken to hold no other reference to the wrapper:
  what it does lies in the world, not in the fields of \<open>Tx\<close>. A log line is kept as the
  level, the format string and the arguments of the call.
\<close>

datatype call =
    sqlx_Preparex sqlx_Tx string
  | sqlx_Commit sqlx_Tx
  | sqlx_Rollback sqlx_Tx
  | Stmt_Select Stmt object "param list"
  | Stmt_Get Stmt "param list"
  | Stmt_Exec Stmt "param list"
  | Selecter_Select object sqlx_Tx Query "param list"
  | Getter_Get object sqlx_Tx Queryx
  | InsertOrUpdater_InsertOrUpdate object sqlx_Tx
  | Updater_Update object sqlx_Tx
  | Deleter_Delete object sqlx_Tx
  | Inserter_Insert object sqlx_Tx

datatype level = Debug | Info | Warning | Error

datatype logarg = ADuration int | AStrings "string list" | AType string

datatype event =
    Call call
  | LogLine level string "logarg list"

record World =
  trace :: "event list"
  ticks :: nat

text \<open>
  The external collaborators answer as a test double would: each answer may depend on the
  whole trace so far. \<open>clock\<close> is the sequence of readings of \<open>time.Now()\<close>, in
  nanoseconds; \<open>Error_text\<close> is the \<open>Error()\<close> method of an error value.
\<close>

record env =
  drv_Preparex :: "event list \<Rightarrow> sqlx_Tx \<Rightarrow> string \<Rightarrow> error + Stmt"
  ret_error :: "event list \<Rightarrow> call \<Rightarrow> error option"
  ret_scan :: "event list \<Rightarrow> Stmt \<Rightarrow> param list \<Rightarrow> int option \<times> error option"
  clock :: "nat \<Rightarrow> int"
  Error_text :: "error \<Rightarrow> string"

text \<open>The struct \<open>Tx\<close>: the embedded \<open>*sqlx.Tx\<close> and the wrapper's own fields.\<close>

record Tx =
  Tx :: sqlx_Tx
  stacktrace :: string
  time :: int
  statementsCache :: "string \<rightharpoonup> Stmt"
  queries :: "string list"

subsection \<open>Primitive effects\<close>

definition emit :: "event \<Rightarrow> World \<Rightarrow> World" where
  "emit ev w = w\<lparr>trace := trace w @ [ev]\<rparr>"

definition call_error :: "env \<Rightarrow> call \<Rightarrow> World \<Rightarrow> error option \<times> World" where
  "call_error e c w = (ret_error e (trace w) c, emit (Call c) w)"

definition Now :: "env \<Rightarrow> World \<Rightarrow> int \<times> World" where
  "Now e w = (clock e (ticks w), w\<lparr>ticks := Suc (ticks w)\<rparr>)"

text \<open>\<open>Time.Sub\<close>: the difference as a \<open>Duration\<close> (an int64 of nanoseconds), saturating.\<close>

definition maxDuration :: int where
  "maxDuration = 2 ^ 63 - 1"

definition minDuration :: int where
  "minDuration = - (2 ^ 63)"

definition Sub :: "int \<Rightarrow> int \<Rightarrow> int" where
  "Sub t u = (let d = t - u in
     if d > maxDuration then maxDuration
     else if d < minDuration then minDuration
     else d)"

definition Second :: int where
  "Second = 1000000000"

text \<open>The two operations of \<open>sync.Map\<close> the wrapper uses.\<close>

definition Load :: "(string \<rightharpoonup> Stmt) \<Rightarrow> string \<Rightarrow> Stmt option" where
  "Load m key = m key"

definition Store :: "(string \<rightharpoonup> Stmt) \<Rightarrow> string \<Rightarrow> Stmt \<Rightarrow> (string \<rightharpoonup> Stmt)" where
  "Store m key v = m(key \<mapsto> v)"

subsection \<open>Preparex\<close>

definition Preparex :: "env \<Rightarrow> string \<Rightarrow> Tx \<times> World \<Rightarrow> (error + Stmt) \<times> Tx \<times> World" where
  "Preparex e query s =
     (case s of (tx0, w) \<Rightarrow>
        let tx = tx0\<lparr>queries := queries tx0 @ [query]\<rparr> in
        (case Load (statementsCache tx) query of
           Some stmt \<Rightarrow> (Inr stmt, tx, w)
         | None \<Rightarrow>
             (case drv_Preparex e (trace w) (Tx tx) query of
                Inl err \<Rightarrow> (Inl err, tx, emit (Call (sqlx_Preparex (Tx tx) query)) w)
              | Inr stmt \<Rightarrow>
                  (Inr stmt,
                   tx\<lparr>statementsCache := Store (statementsCache tx) query stmt\<rparr>,
                   emit (Call (sqlx_Preparex (Tx tx) query)) w))))"

subsection \<open>Commit and Rollback\<close>

definition Commit :: "env \<Rightarrow> Tx \<times> World \<Rightarrow> error option \<times> Tx \<times> World" where
  "Commit e s =
     (case s of (tx, w) \<Rightarrow>
        (case call_error e (sqlx_Commit (Tx tx)) w of (err, w1) \<Rightarrow>
           (case Now e w1 of (t1, w2) \<Rightarrow>
              let w3 =
                (if Sub t1 (time tx) > 1 * Second then
                   (case Now e w2 of (t2, w') \<Rightarrow>
                      emit (LogLine Warning ''Transaction commit took long, took: %q, query=%v.''
                              [ADuration (Sub t2 (time tx)), AStrings (queries tx)]) w')
                 else w2)
              in
                (case Now e w3 of (t3, w4) \<Rightarrow>
                   (err, tx,
                    emit (LogLine Info ''Transaction commit, took: %q.''
                            [ADuration (Sub t3 (time tx))]) w4)))))"

definition Rollback :: "env \<Rightarrow> Tx \<times> World \<Rightarrow> error option \<times> Tx \<times> World" where
  "Rollback e s =
     (case s of (tx, w) \<Rightarrow>
        (case call_error e (sqlx_Rollback (Tx tx)) w of (err, w1) \<Rightarrow>
           (case Now e w1 of (t1, w2) \<Rightarrow>
              (err, tx,
               emit (LogLine Info ''Transaction rollback, took: %q''
                       [ADuration (Sub t1 (time tx))]) w2))))"

subsection \<open>Selectx, Countx, Exec\<close>

text \<open>
  A \<open>selectOption\<close> is an interface value with the method \<open>Wrap(q, params)\<close>, which
  returns the rewritten text and parameters.
\<close>

type_synonym selectOption = "string \<Rightarrow> param list \<Rightarrow> string \<times> param list"

text \<open>The loop \<open>for _, option := range options { q, params = option.Wrap(q, params) }\<close>.\<close>

fun Wrap_options :: "selectOption list \<Rightarrow> string \<Rightarrow> param list \<Rightarrow> string \<times> param list" where
  "Wrap_options [] q params = (q, params)"
| "Wrap_options (option # options) q params =
     (case option q params of (q', params') \<Rightarrow> Wrap_options options q' params')"

definition Selectx ::
  "env \<Rightarrow> object \<Rightarrow> Queryx \<Rightarrow> selectOption list \<Rightarrow> Tx \<times> World \<Rightarrow> error option \<times> Tx \<times> World" where
  "Selectx e obj qx options s =
     (case s of (tx, w) \<Rightarrow>
        (case Wrap_options options (Query qx) (Params qx) of (q, params) \<Rightarrow>
           let w1 = emit (LogLine Debug q []) w in
           if implements obj Selecter then
             (case call_error e (Selecter_Select obj (Tx tx) q params) w1 of
                (err, w2) \<Rightarrow> (err, tx, w2))
           else
             (case Preparex e q (tx, w1) of
                (Inl err, tx', w2) \<Rightarrow> (Some err, tx', w2)
              | (Inr stmt, tx', w2) \<Rightarrow>
                  (case call_error e (Stmt_Select stmt obj params) w2 of
                     (err, w3) \<Rightarrow> (err, tx', w3)))))"

text \<open>
  \<open>stmt.Get(&count, qx.Params...)\<close> scans into \<open>count\<close>, which starts as 0: the answer
  says what was scanned, if anything, and the error.
\<close>

definition Countx :: "env \<Rightarrow> Queryx \<Rightarrow> Tx \<times> World \<Rightarrow> (int \<times> error option) \<times> Tx \<times> World" where
  "Countx e qx s =
     (case Preparex e (''SELECT COUNT(*) FROM ('' @ Query qx @ '') q'') s of
        (Inl err, tx, w) \<Rightarrow> ((0, Some err), tx, w)
      | (Inr stmt, tx, w) \<Rightarrow>
          (case ret_scan e (trace w) stmt (Params qx) of
             (scanned, err) \<Rightarrow>
               let count = (case scanned of None \<Rightarrow> 0 | Some n \<Rightarrow> n) in
               ((count, err), tx, emit (Call (Stmt_Get stmt (Params qx))) w)))"

definition Exec :: "env \<Rightarrow> Queryx \<Rightarrow> Tx \<times> World \<Rightarrow> error option \<times> Tx \<times> World" where
  "Exec e qx s =
     (case Preparex e (Query qx) s of
        (Inl err, tx, w) \<Rightarrow> (Some err, tx, w)
      | (Inr stmt, tx, w) \<Rightarrow>
          (case call_error e (Stmt_Exec stmt (Params qx)) w of
             (err, w1) \<Rightarrow> (err, tx, w1)))"

subsection \<open>Capability dispatch\<close>

definition Getx :: "env \<Rightarrow> object \<Rightarrow> Queryx \<Rightarrow> Tx \<times> World \<Rightarrow> error option \<times> Tx \<times> World" where
  "Getx e obj qx s =
     (case s of (tx, w) \<Rightarrow>
        if implements obj Getter then
          (case call_error e (Getter_Get obj (Tx tx) qx) w of (err, w1) \<Rightarrow> (err, tx, w1))
        else
          (Some ErrNoGetterFound, tx,
           emit (LogLine Error ''No getter found for object: %s'' [AType (type_name obj)]) w))"

definition Get :: "env \<Rightarrow> object \<Rightarrow> Queryx \<Rightarrow> Tx \<times> World \<Rightarrow> error option \<times> Tx \<times> World" where
  "Get e obj qx s =
     (case s of (tx, w) \<Rightarrow>
        if implements obj Getter then
          (case call_error e (Getter_Get obj (Tx tx) qx) w of (err, w1) \<Rightarrow> (err, tx, w1))
        else
          (Some ErrNoGetterFound, tx,
           emit (LogLine Error ''No getter found for object: %s'' [AType (type_name obj)]) w))"

definition InsertOrUpdate :: "env \<Rightarrow> object \<Rightarrow> Tx \<times> World \<Rightarrow> error option \<times> Tx \<times> World" where
  "InsertOrUpdate e obj s =
     (case s of (tx, w) \<Rightarrow>
        if implements obj InsertOrUpdater then
          (case call_error e (InsertOrUpdater_InsertOrUpdate obj (Tx tx)) w of
             (err, w1) \<Rightarrow> (err, tx, w1))
        else
          (Some ErrNoInsertOrUpdaterFound, tx,
           emit (LogLine Error ''No InsertOrUpdate found for object: %s''
                   [AType (type_name obj)]) w))"

definition Update :: "env \<Rightarrow> object \<Rightarrow> Tx \<times> World \<Rightarrow> error option \<times> Tx \<times> World" where
  "Update e obj s =
     (case s of (tx, w) \<Rightarrow>
        if implements obj Updater then
          (case call_error e (Updater_Update obj (Tx tx)) w of (err, w1) \<Rightarrow> (err, tx, w1))
        else
          (Some ErrNoUpdaterFound, tx,
           emit (LogLine Error ''No updater found for object: %s'' [AType (type_name obj)]) w))"

definition Delete :: "env \<Rightarrow> object \<Rightarrow> Tx \<times> World \<Rightarrow> error option \<times> Tx \<times> World" where
  "Delete e obj s =
     (case s of (tx, w) \<Rightarrow>
        if implements obj Deleter then
          (case call_error e (Deleter_Delete obj (Tx tx)) w of (err, w1) \<Rightarrow> (err, tx, w1))
        else
          (Some ErrNoDeleterFound, tx,
           emit (LogLine Error ''No deleter found for object: %s'' [AType (type_name obj)]) w))"

definition Insert :: "env \<Rightarrow> object \<Rightarrow> Tx \<times> World \<Rightarrow> error option \<times> Tx \<times> World" where
  "Insert e obj s =
     (case s of (tx, w) \<Rightarrow>
        if implements obj Inserter then
          (case call_error e (Inserter_Insert obj (Tx tx)) w of
             (err, w1) \<Rightarrow>
               (case err of
                  Some er \<Rightarrow> (err, tx, emit (LogLine Error (Error_text e er) []) w1)
                | None \<Rightarrow> (err, tx, w1)))
        else
          (Some ErrNoInserterFound, tx,
           emit (LogLine Error ''No inserter found for object: %s'' [AType (type_name obj)]) w))"

subsection \<open>A transaction's lifetime\<close>

text \<open>
  The calls a client makes on one transaction, in order; \<open>run\<close> performs them and keeps
  the transaction and the world, dropping the results.
\<close>

datatype op =
    OpPreparex string
  | OpCommit
  | OpRollback
  | OpSelectx object Queryx "selectOption list"
  | OpCountx Queryx
  | OpExec Queryx
  | OpGetx object Queryx
  | OpGet object Queryx
  | OpInsertOrUpdate object
  | OpUpdate object
  | OpDelete object
  | OpInsert object

fun step :: "env \<Rightarrow> op \<Rightarrow> Tx \<times> World \<Rightarrow> Tx \<times> World" where
  "step e (OpPreparex q) s = snd (Preparex e q s)"
| "step e OpCommit s = snd (Commit e s)"
| "step e OpRollback s = snd (Rollback e s)"
| "step e (OpSelectx obj qx options) s = snd (Selectx e obj qx options s)"
| "step e (OpCountx qx) s = snd (Countx e qx s)"
| "step e (OpExec qx) s = snd (Exec e qx s)"
| "step e (OpGetx obj qx) s = snd (Getx e obj qx s)"
| "step e (OpGet obj qx) s = snd (Get e obj qx s)"
| "step e (OpInsertOrUpdate obj) s = snd (InsertOrUpdate e obj s)"
| "step e (OpUpdate obj) s = snd (Update e obj s)"
| "step e (OpDelete obj) s = snd (Delete e obj s)"
| "step e (OpInsert obj) s = snd (Insert e obj s)"

fun run :: "env \<Rightarrow> op list \<Rightarrow> Tx \<times> World \<Rightarrow> Tx \<times> World" where
  "run e [] s = s"
| "run e (x # xs) s = run e xs (step e x s)"

text \<open>How often the underlying transaction was asked to prepare a given text.\<close>

fun is_prepare_of :: "string \<Rightarrow> event \<Rightarrow> bool" where
  "is_prepare_of q (Call (sqlx_Preparex h q')) = (q' = q)"
| "is_prepare_of q _ = False"

definition driver_prepares :: "string \<Rightarrow> World \<Rightarrow> nat" where
  "driver_prepares q w = length (filter (is_prepare_of q) (trace w))"

text \<open>The calls on the outside recorded in a world, without the log lines.\<close>

fun calls_of :: "event list \<Rightarrow> call list" where
  "calls_of [] = []"
| "calls_of (Call c # evs) = c # calls_of evs"
| "calls_of (LogLine l f args # evs) = calls_of evs"

text \<open>
  The texts one client call hands to \<open>Preparex\<close>, and, in the spec's words, "every
  previously prepared query text, in the order they were first prepared": each text once,
  at the place of its first occurrence.
\<close>

fun prepared_texts :: "op \<Rightarrow> string list" where
  "prepared_texts (OpPreparex q) = [q]"
| "prepared_texts (OpSelectx obj qx options) =
     (if implements obj Selecter then []
      else [fst (Wrap_options options (Query qx) (Params qx))])"
| "prepared_texts (OpCountx qx) = [''SELECT COUNT(*) FROM ('' @ Query qx @ '') q'']"
| "prepared_texts (OpExec qx) = [Query qx]"
| "prepared_texts _ = []"

fun first_prepared :: "string list \<Rightarrow> string list" where
  "first_prepared [] = []"
| "first_prepared (q # qs) = q # first_prepared (filter (\<lambda>x. x \<noteq> q) qs)"

text \<open>The spec's words for the options of \<open>Selectx\<close>: applied left to right, as given.\<close>

definition apply_in_order :: "selectOption list \<Rightarrow> string \<times> param list \<Rightarrow> string \<times> param list" where
  "apply_in_order options qp = foldl (\<lambda>acc option. option (fst acc) (snd acc)) qp options"

definition elapsed :: "env \<Rightarrow> Tx \<Rightarrow> nat \<Rightarrow> int" where
  "elapsed e tx n = Sub (clock e n) (time tx)"

text \<open>
  The spec's words for a successful dispatch: the delegate call \<open>c\<close> is made exactly once
  on the outside, nothing else is called, the transaction record is untouched and the
  delegate's answer is what the dispatcher returns.
\<close>

definition delegated ::
  "env \<Rightarrow> call \<Rightarrow> Tx \<times> World \<Rightarrow> error option \<times> Tx \<times> World \<Rightarrow> bool" where
  "delegated e c s r =
     (fst r = ret_error e (trace (snd s)) c \<and>
      fst (snd r) = fst s \<and>
      calls_of (trace (snd (snd r))) = calls_of (trace (snd s)) @ [c])"

section \<open>The generator: the timestamp lines of the emitted methods\<close>

text \<open>
  \<open>Generator.Printf\<close> appends the formatted text to the buffer. The three segments of
  \<open>generate\<close> below are the ones that emit \<open>Update\<close>, \<open>InsertOrUpdate\<close> and \<open>Insert\<close>
  for one entry \<open>name, columns\<close> of \<open>file.types\<close>.
\<close>

definition nl :: string where
  "nl = [CHR 0x0A]"

definition tab :: string where
  "tab = [CHR 0x09]"

definition Printf :: "string \<Rightarrow> string \<Rightarrow> string" where
  "Printf text buf = buf @ text"

definition CreatedAt_line :: string where
  "CreatedAt_line = ''s.CreatedAt = time.Now()'' @ nl"

definition UpdatedAt_line :: string where
  "UpdatedAt_line = ''s.UpdatedAt = time.Now()'' @ nl"

fun Update_stamps :: "string list \<Rightarrow> string \<Rightarrow> string" where
  "Update_stamps [] buf = buf"
| "Update_stamps (column # columns) buf =
     Update_stamps columns
       (if column = ''updated_at'' then Printf UpdatedAt_line buf else buf)"

fun InsertOrUpdate_stamps :: "string list \<Rightarrow> string \<Rightarrow> string" where
  "InsertOrUpdate_stamps [] buf = buf"
| "InsertOrUpdate_stamps (column # columns) buf =
     InsertOrUpdate_stamps columns
       (if column = ''created_at'' then buf
        else if column = ''updated_at'' then Printf UpdatedAt_line buf
        else buf)"

fun Insert_stamps :: "string list \<Rightarrow> string \<Rightarrow> string" where
  "Insert_stamps [] buf = buf"
| "Insert_stamps (column # columns) buf =
     Insert_stamps columns
       (if column = ''created_at'' then Printf CreatedAt_line buf
        else if column = ''updated_at'' then Printf UpdatedAt_line buf
        else buf)"

definition Update_head :: "string \<Rightarrow> string" where
  "Update_head name = ''func (s *'' @ name @ '') Update(tx *sqlx.Tx) error {'' @ nl"

definition Update_exec :: "string \<Rightarrow> string" where
  "Update_exec name =
     '' _, err := tx.NamedExec(string(query'' @ name @ ''Update), s)'' @ nl @
     tab @ tab @ tab @ ''return err'' @ nl @
     tab @ tab @ ''}'' @ nl @
     tab @ tab"

definition InsertOrUpdate_head :: "string \<Rightarrow> string" where
  "InsertOrUpdate_head name =
     ''func (s *'' @ name @ '') InsertOrUpdate(tx *sqlx.Tx) error {'' @ nl"

definition InsertOrUpdate_exec :: "string \<Rightarrow> string" where
  "InsertOrUpdate_exec name =
     nl @
     tab @ tab @ tab @ ''_, err := tx.NamedExec(string(query'' @ name @ ''InsertOrUpdate), s)'' @ nl @
     tab @ tab @ tab @ ''return err'' @ nl @
     tab @ tab @ ''}'' @ nl @
     tab @ tab"

definition Insert_head :: "string \<Rightarrow> string" where
  "Insert_head name = ''func (s *'' @ name @ '') Insert(tx *sqlx.Tx) error {'' @ nl"

definition Insert_exec :: "string \<Rightarrow> string" where
  "Insert_exec name =
     nl @
     tab @ tab @ tab @ ''_, err := tx.NamedExec(string(query'' @ name @ ''Insert), s)'' @ nl @
     tab @ tab @ tab @ ''return err'' @ nl @
     tab @ tab @ ''}'' @ nl @
     tab @ tab"

definition generate_Update :: "string \<Rightarrow> string list \<Rightarrow> string \<Rightarrow> string" where
  "generate_Update name columns buf =
     Printf (Update_exec name) (Update_stamps columns (Printf (Update_head name) buf))"

definition generate_InsertOrUpdate :: "string \<Rightarrow> string list \<Rightarrow> string \<Rightarrow> string" where
  "generate_InsertOrUpdate name columns buf =
     Printf (InsertOrUpdate_exec name)
       (InsertOrUpdate_stamps columns (Printf (InsertOrUpdate_head name) buf))"

definition generate_Insert :: "string \<Rightarrow> string list \<Rightarrow> string \<Rightarrow> string" where
  "generate_Insert name columns buf =
     Printf (Insert_exec name) (Insert_stamps columns (Printf (Insert_head name) buf))"

section \<open>Concrete inputs\<close>

text \<open>
  A test double: the driver refuses the text \<open>bad\<close> and otherwise hands out a fresh
  statement handle; every other call succeeds; the clock advances 0.6 s per reading.
\<close>

definition demo_env :: env where
  "demo_env =
     \<lparr>drv_Preparex = (\<lambda>tr h q. if q = ''bad'' then Inl (DriverError ''syntax error'')
                                else Inr (length tr)),
      ret_error = (\<lambda>tr c. None),
      ret_scan = (\<lambda>tr stmt ps. (Some 3, None)),
      clock = (\<lambda>n. int n * 600000000),
      Error_text = (\<lambda>er. ''error'')\<rparr>"

text \<open>The same double, with delegates and commits that fail.\<close>

definition failing_env :: env where
  "failing_env = demo_env\<lparr>ret_error := (\<lambda>tr c. Some (DriverError ''deadlock''))\<rparr>"

text \<open>A double whose driver refuses every prepare.\<close>

definition offline_env :: env where
  "offline_env =
     demo_env\<lparr>drv_Preparex := (\<lambda>tr h q. Inl (DriverError ''connection lost''))\<rparr>"

definition demo_tx :: Tx where
  "demo_tx = \<lparr>Tx = 7, stacktrace = [], time = 0, statementsCache = Map.empty, queries = []\<rparr>"

definition demo_world :: World where
  "demo_world = \<lparr>trace = [], ticks = 0\<rparr>"

definition plain_object :: object where
  "plain_object = \<lparr>ptr = 1, type_name = ''*model.Plain'', method_set = []\<rparr>"

definition full_object :: object where
  "full_object =
     \<lparr>ptr = 2, type_name = ''*model.Alert'',
      method_set = [Getter, Inserter, Updater, InsertOrUpdater, Deleter, Selecter]\<rparr>"

definition demo_qx :: Queryx where
  "demo_qx = \<lparr>Query = ''SELECT id FROM alerts'', Params = [PInt 1]\<rparr>"

definition paginate :: selectOption where
  "paginate q params = (q @ '' LIMIT ?'', params @ [PInt 10])"

definition filterActive :: selectOption where
  "filterActive q params = (''SELECT * FROM ('' @ q @ '') t WHERE active = ?'', PBool True # params)"

section \<open>Properties of the transaction wrapper\<close>

subsection \<open>What each call does to the transaction record\<close>

lemma Preparex_hit:
  "statementsCache tx q = Some stmt \<Longrightarrow>
   Preparex e q (tx, w) = (Inr stmt, tx\<lparr>queries := queries tx @ [q]\<rparr>, w)"
  by (simp add: Preparex_def Load_def)

lemma Preparex_Inr_cached:
  "Preparex e q s = (Inr stmt, tx', w') \<Longrightarrow> statementsCache tx' q = Some stmt"
  by (cases s) (auto simp: Preparex_def Load_def Store_def Let_def split: option.splits sum.splits)

lemma Preparex_keeps_cache:
  "statementsCache (fst s) k = Some st \<Longrightarrow>
   statementsCache (fst (snd (Preparex e q s))) k = Some st"
  by (cases s) (auto simp: Preparex_def Load_def Store_def Let_def split: option.splits sum.splits)

lemma Preparex_queries:
  "queries (fst (snd (Preparex e q s))) = queries (fst s) @ [q]"
  by (cases s) (auto simp: Preparex_def Load_def Store_def Let_def split: option.splits sum.splits)

lemma Selectx_tx:
  "fst (snd (Selectx e obj qx options s)) =
     (if implements obj Selecter then fst s
      else fst (snd (Preparex e (fst (Wrap_options options (Query qx) (Params qx)))
                       (fst s, emit (LogLine Debug (fst (Wrap_options options (Query qx) (Params qx))) []) (snd s)))))"
  by (cases s) (auto simp: Selectx_def call_error_def Let_def split: prod.splits sum.splits)

lemma Countx_tx:
  "fst (snd (Countx e qx s)) =
     fst (snd (Preparex e (''SELECT COUNT(*) FROM ('' @ Query qx @ '') q'') s))"
  by (auto simp: Countx_def Let_def split: prod.splits sum.splits)

lemma Exec_tx:
  "fst (snd (Exec e qx s)) = fst (snd (Preparex e (Query qx) s))"
  by (auto simp: Exec_def call_error_def split: prod.splits sum.splits)

lemma Commit_tx: "fst (snd (Commit e s)) = fst s"
  by (cases s) (simp add: Commit_def call_error_def Now_def Let_def split: prod.splits)

lemma Rollback_tx: "fst (snd (Rollback e s)) = fst s"
  by (cases s) (simp add: Rollback_def call_error_def Now_def split: prod.splits)

lemma Getx_tx: "fst (snd (Getx e obj qx s)) = fst s"
  by (cases s) (simp add: Getx_def call_error_def)

lemma Get_tx: "fst (snd (Get e obj qx s)) = fst s"
  by (cases s) (simp add: Get_def call_error_def)

lemma InsertOrUpdate_tx: "fst (snd (InsertOrUpdate e obj s)) = fst s"
  by (cases s) (simp add: InsertOrUpdate_def call_error_def)

lemma Update_tx: "fst (snd (Update e obj s)) = fst s"
  by (cases s) (simp add: Update_def call_error_def)

lemma Delete_tx: "fst (snd (Delete e obj s)) = fst s"
  by (cases s) (simp add: Delete_def call_error_def)

lemma Insert_tx: "fst (snd (Insert e obj s)) = fst s"
  by (cases s) (simp add: Insert_def call_error_def split: option.splits)

lemmas dispatch_tx =
  Commit_tx Rollback_tx Getx_tx Get_tx InsertOrUpdate_tx Update_tx Delete_tx Insert_tx

lemma step_keeps_cache:
  assumes "statementsCache (fst s) k = Some st"
  shows "statementsCache (fst (step e x s)) k = Some st"
  using assms
  by (cases x) (simp_all add: dispatch_tx Selectx_tx Countx_tx Exec_tx Preparex_keeps_cache)

lemma run_keeps_cache:
  "statementsCache (fst s) k = Some st \<Longrightarrow> statementsCache (fst (run e ops s)) k = Some st"
  by (induction ops arbitrary: s) (simp_all add: step_keeps_cache)

lemma step_queries:
  "queries (fst (step e x s)) = queries (fst s) @ prepared_texts x"
  by (cases x) (simp_all add: dispatch_tx Selectx_tx Countx_tx Exec_tx Preparex_queries)

lemma run_queries:
  "queries (fst (run e ops s)) = queries (fst s) @ concat (map prepared_texts ops)"
  by (induction ops arbitrary: s) (simp_all add: step_queries)

subsection \<open>The statement cache\<close>

text \<open>
  C1. Once \<open>Preparex\<close> has returned a statement for a text (so the text is cached), every
  later \<open>Preparex\<close> with the same text, after any calls whatever on the same transaction,
  returns that same statement, only appends to the query log, and leaves the world as it
  was: the underlying transaction is not asked to prepare again.
\<close>

theorem Preparex_reuses_cached_statement:
  assumes "Preparex e q s = (Inr stmt, s1)"
  shows "Preparex e q (run e ops s1) =
           (Inr stmt,
            (fst (run e ops s1))\<lparr>queries := queries (fst (run e ops s1)) @ [q]\<rparr>,
            snd (run e ops s1))
         \<and> driver_prepares q (snd (snd (Preparex e q (run e ops s1)))) =
             driver_prepares q (snd (run e ops s1))"
proof -
  obtain tx1 w1 where s1: "s1 = (tx1, w1)" by (cases s1)
  from assms s1 have "statementsCache (fst s1) q = Some stmt"
    by (simp add: Preparex_Inr_cached)
  then have cached: "statementsCache (fst (run e ops s1)) q = Some stmt"
    by (rule run_keeps_cache)
  obtain tx2 w2 where s2: "run e ops s1 = (tx2, w2)" by (cases "run e ops s1")
  from cached s2 have "Preparex e q (tx2, w2) = (Inr stmt, tx2\<lparr>queries := queries tx2 @ [q]\<rparr>, w2)"
    by (simp add: Preparex_hit)
  with s2 show ?thesis by simp
qed

theorem Preparex_reuses_cached_statement_witness:
  "Preparex demo_env ''SELECT 1''
     (run demo_env [OpExec demo_qx, OpPreparex ''bad'', OpInsert plain_object]
        (snd (Preparex demo_env ''SELECT 1'' (demo_tx, demo_world)))) =
   (Inr 0,
    demo_tx\<lparr>statementsCache := [''SELECT 1'' \<mapsto> 0, ''SELECT id FROM alerts'' \<mapsto> 1],
            queries := [''SELECT 1'', ''SELECT id FROM alerts'', ''bad'', ''SELECT 1'']\<rparr>,
    \<lparr>trace = [Call (sqlx_Preparex 7 ''SELECT 1''),
              Call (sqlx_Preparex 7 ''SELECT id FROM alerts''),
              Call (Stmt_Exec 1 [PInt 1]),
              Call (sqlx_Preparex 7 ''bad''),
              LogLine Error ''No inserter found for object: %s'' [AType ''*model.Plain'']],
     ticks = 0\<rparr>)"
proof -
  have h: "Preparex demo_env ''SELECT 1'' (demo_tx, demo_world) =
             (Inr 0, snd (Preparex demo_env ''SELECT 1'' (demo_tx, demo_world)))"
    by (simp add: Preparex_def Load_def Store_def demo_env_def demo_tx_def demo_world_def emit_def)
  show ?thesis
    using Preparex_reuses_cached_statement [OF h,
      of "[OpExec demo_qx, OpPreparex ''bad'', OpInsert plain_object]"]
    by (simp add: Preparex_def Load_def Store_def demo_env_def demo_tx_def demo_world_def
        emit_def Exec_def call_error_def Insert_def implements_def plain_object_def demo_qx_def)
qed

text \<open>
  C2, as stated, fails: \<open>Preparex\<close> appends the text to the query log before it looks at
  the cache or calls the driver, so a failed prepare is in the log all the same.
\<close>

theorem Preparex_failure_is_logged_counterexample:
  "drv_Preparex demo_env (trace demo_world) (Tx demo_tx) ''bad'' = Inl (DriverError ''syntax error'')
   \<and> fst (Preparex demo_env ''bad'' (demo_tx, demo_world)) = Inl (DriverError ''syntax error'')
   \<and> queries demo_tx = []
   \<and> queries (fst (snd (Preparex demo_env ''bad'' (demo_tx, demo_world)))) = [''bad'']
   \<and> queries (fst (snd (Preparex demo_env ''bad'' (demo_tx, demo_world)))) \<noteq> queries demo_tx"
  by (simp add: Preparex_def Load_def demo_env_def demo_tx_def demo_world_def emit_def)

text \<open>
  C2, amended. When the text is not cached and the underlying prepare fails, \<open>Preparex\<close>
  returns exactly the driver's error and leaves the statement cache unchanged; the query
  log has grown by the text, once, as on every call of \<open>Preparex\<close>.
\<close>

theorem Preparex_failure:
  assumes "statementsCache tx q = None"
    and "drv_Preparex e (trace w) (Tx tx) q = Inl err"
  shows "Preparex e q (tx, w) =
           (Inl err, tx\<lparr>queries := queries tx @ [q]\<rparr>, emit (Call (sqlx_Preparex (Tx tx) q)) w)"
  using assms by (simp add: Preparex_def Load_def)

theorem Preparex_failure_witness:
  "Preparex demo_env ''bad'' (demo_tx, demo_world) =
     (Inl (DriverError ''syntax error''), demo_tx\<lparr>queries := [''bad'']\<rparr>,
      \<lparr>trace = [Call (sqlx_Preparex 7 ''bad'')], ticks = 0\<rparr>)"
proof -
  have h1: "statementsCache demo_tx ''bad'' = None"
    by (simp add: demo_tx_def)
  have h2: "drv_Preparex demo_env (trace demo_world) (Tx demo_tx) ''bad'' =
              Inl (DriverError ''syntax error'')"
    by (simp add: demo_env_def)
  show ?thesis
    using Preparex_failure [OF h1 h2]
    by (simp add: demo_tx_def demo_world_def emit_def)
qed

subsection \<open>Commit and Rollback\<close>

lemma first_prepared_set: "set (first_prepared qs) = set qs"
  by (induction qs rule: first_prepared.induct) auto

lemma first_prepared_subseq: "subseq (first_prepared qs) qs"
proof (induction qs rule: first_prepared.induct)
  case 1
  show ?case by simp
next
  case (2 q qs)
  have "subseq (filter (\<lambda>x. x \<noteq> q) qs) qs" by simp
  with 2 have "subseq (first_prepared (filter (\<lambda>x. x \<noteq> q) qs)) qs"
    using subseq_order.order_trans by blast
  then show ?case by simp
qed

lemma Commit_eq:
  "Commit e (tx, w) =
     (ret_error e (trace w) (sqlx_Commit (Tx tx)), tx,
      \<lparr>trace = trace w @ [Call (sqlx_Commit (Tx tx))] @
         (if elapsed e tx (ticks w) > Second
          then [LogLine Warning ''Transaction commit took long, took: %q, query=%v.''
                  [ADuration (elapsed e tx (ticks w + 1)), AStrings (queries tx)],
                LogLine Info ''Transaction commit, took: %q.''
                  [ADuration (elapsed e tx (ticks w + 2))]]
          else [LogLine Info ''Transaction commit, took: %q.''
                  [ADuration (elapsed e tx (ticks w + 1))]]),
       ticks = (if elapsed e tx (ticks w) > Second then ticks w + 3 else ticks w + 2)\<rparr>)"
  by (simp add: Commit_def call_error_def Now_def emit_def elapsed_def Let_def)

lemma Rollback_eq:
  "Rollback e (tx, w) =
     (ret_error e (trace w) (sqlx_Rollback (Tx tx)), tx,
      \<lparr>trace = trace w @ [Call (sqlx_Rollback (Tx tx)),
                 LogLine Info ''Transaction rollback, took: %q''
                   [ADuration (elapsed e tx (ticks w))]],
       ticks = ticks w + 1\<rparr>)"
  by (simp add: Rollback_def call_error_def Now_def emit_def elapsed_def)

text \<open>
  C3. \<open>Commit\<close> and \<open>Rollback\<close> call the underlying transaction and return its answer
  unchanged. Both end with an informational line carrying the elapsed time read at that
  moment. \<open>Commit\<close> logs, before it, a warning exactly when the elapsed time it reads
  first is more than one second; the warning carries the query log. After any calls on
  the transaction the query log is what it was followed by every text handed to
  \<open>Preparex\<close>, in call order; so every such text is in it, and the texts in the order of
  their first preparation form a subsequence of it.
\<close>

theorem Commit_Rollback_logging:
  "Commit e (tx, w) =
     (ret_error e (trace w) (sqlx_Commit (Tx tx)), tx,
      \<lparr>trace = trace w @ [Call (sqlx_Commit (Tx tx))] @
         (if elapsed e tx (ticks w) > Second
          then [LogLine Warning ''Transaction commit took long, took: %q, query=%v.''
                  [ADuration (elapsed e tx (ticks w + 1)), AStrings (queries tx)],
                LogLine Info ''Transaction commit, took: %q.''
                  [ADuration (elapsed e tx (ticks w + 2))]]
          else [LogLine Info ''Transaction commit, took: %q.''
                  [ADuration (elapsed e tx (ticks w + 1))]]),
       ticks = (if elapsed e tx (ticks w) > Second then ticks w + 3 else ticks w + 2)\<rparr>)
   \<and> Rollback e (tx, w) =
     (ret_error e (trace w) (sqlx_Rollback (Tx tx)), tx,
      \<lparr>trace = trace w @ [Call (sqlx_Rollback (Tx tx)),
                 LogLine Info ''Transaction rollback, took: %q''
                   [ADuration (elapsed e tx (ticks w))]],
       ticks = ticks w + 1\<rparr>)
   \<and> queries (fst (run e ops s0)) = queries (fst s0) @ concat (map prepared_texts ops)
   \<and> subseq (first_prepared (concat (map prepared_texts ops))) (queries (fst (run e ops s0)))
   \<and> set (first_prepared (concat (map prepared_texts ops))) = set (concat (map prepared_texts ops))
   \<and> set (concat (map prepared_texts ops)) \<subseteq> set (queries (fst (run e ops s0)))"
proof -
  have "subseq (first_prepared (concat (map prepared_texts ops)))
          (queries (fst s0) @ concat (map prepared_texts ops))"
    using first_prepared_subseq [of "concat (map prepared_texts ops)"]
    by (metis append_Nil list_emb_append_mono list_emb_Nil)
  then show ?thesis
    by (simp add: Commit_eq Rollback_eq run_queries first_prepared_set del: set_concat)
qed

theorem Commit_Rollback_logging_witness:
  "Commit demo_env
     (run demo_env [OpPreparex ''SELECT 1'', OpExec demo_qx, OpPreparex ''SELECT 1'']
        (demo_tx, demo_world\<lparr>ticks := 2\<rparr>)) =
   (None,
    demo_tx\<lparr>statementsCache := [''SELECT 1'' \<mapsto> 0, ''SELECT id FROM alerts'' \<mapsto> 1],
            queries := [''SELECT 1'', ''SELECT id FROM alerts'', ''SELECT 1'']\<rparr>,
    \<lparr>trace = [Call (sqlx_Preparex 7 ''SELECT 1''),
              Call (sqlx_Preparex 7 ''SELECT id FROM alerts''),
              Call (Stmt_Exec 1 [PInt 1]),
              Call (sqlx_Commit 7),
              LogLine Warning ''Transaction commit took long, took: %q, query=%v.''
                [ADuration 1800000000,
                 AStrings [''SELECT 1'', ''SELECT id FROM alerts'', ''SELECT 1'']],
              LogLine Info ''Transaction commit, took: %q.'' [ADuration 2400000000]],
     ticks = 5\<rparr>)
   \<and> Commit demo_env (demo_tx\<lparr>queries := [''SELECT 1'']\<rparr>, demo_world) =
   (None, demo_tx\<lparr>queries := [''SELECT 1'']\<rparr>,
    \<lparr>trace = [Call (sqlx_Commit 7),
              LogLine Info ''Transaction commit, took: %q.'' [ADuration 600000000]],
     ticks = 2\<rparr>)
   \<and> Rollback failing_env (demo_tx, demo_world) =
   (Some (DriverError ''deadlock''), demo_tx,
    \<lparr>trace = [Call (sqlx_Rollback 7),
              LogLine Info ''Transaction rollback, took: %q'' [ADuration 0]],
     ticks = 1\<rparr>)"
proof -
  have r: "run demo_env [OpPreparex ''SELECT 1'', OpExec demo_qx, OpPreparex ''SELECT 1'']
             (demo_tx, demo_world\<lparr>ticks := 2\<rparr>) =
           (demo_tx\<lparr>statementsCache := [''SELECT 1'' \<mapsto> 0, ''SELECT id FROM alerts'' \<mapsto> 1],
                    queries := [''SELECT 1'', ''SELECT id FROM alerts'', ''SELECT 1'']\<rparr>,
            \<lparr>trace = [Call (sqlx_Preparex 7 ''SELECT 1''),
                      Call (sqlx_Preparex 7 ''SELECT id FROM alerts''),
                      Call (Stmt_Exec 1 [PInt 1])],
             ticks = 2\<rparr>)"
    by (simp add: Preparex_def Load_def Store_def demo_env_def demo_tx_def demo_world_def
        emit_def Exec_def call_error_def demo_qx_def)
  have slow: "elapsed demo_env
      (demo_tx\<lparr>statementsCache := [''SELECT 1'' \<mapsto> 0, ''SELECT id FROM alerts'' \<mapsto> 1],
               queries := [''SELECT 1'', ''SELECT id FROM alerts'', ''SELECT 1'']\<rparr>) 2 = 1200000000"
    by (simp add: elapsed_def Sub_def maxDuration_def minDuration_def demo_env_def demo_tx_def)
  show ?thesis
    unfolding r
    using Commit_Rollback_logging [of demo_env
        "demo_tx\<lparr>statementsCache := [''SELECT 1'' \<mapsto> 0, ''SELECT id FROM alerts'' \<mapsto> 1],
                 queries := [''SELECT 1'', ''SELECT id FROM alerts'', ''SELECT 1'']\<rparr>"
        "\<lparr>trace = [Call (sqlx_Preparex 7 ''SELECT 1''),
                      Call (sqlx_Preparex 7 ''SELECT id FROM alerts''),
                      Call (Stmt_Exec 1 [PInt 1])],
             ticks = 2\<rparr>" "[]" "(demo_tx, demo_world)"]
      Commit_Rollback_logging [of demo_env "demo_tx\<lparr>queries := [''SELECT 1'']\<rparr>" demo_world
         "[]" "(demo_tx, demo_world)"]
      Commit_Rollback_logging [of failing_env demo_tx demo_world "[]" "(demo_tx, demo_world)"]
    by (simp add: elapsed_def Sub_def maxDuration_def minDuration_def Second_def demo_env_def
        failing_env_def demo_tx_def demo_world_def)
qed

subsection \<open>Capability dispatch\<close>

lemma calls_of_append: "calls_of (evs @ evs') = calls_of evs @ calls_of evs'"
  by (induction evs rule: calls_of.induct) simp_all

lemma calls_of_emit_LogLine: "calls_of (trace (emit (LogLine l f args) w)) = calls_of (trace w)"
  by (simp add: emit_def calls_of_append)

lemma calls_of_emit_Call: "calls_of (trace (emit (Call c) w)) = calls_of (trace w) @ [c]"
  by (simp add: emit_def calls_of_append)

text \<open>
  C4. When the object does not implement the capability of a dispatch operation, the call
  returns that operation's sentinel error, leaves the transaction record as it was, and
  the only thing it does to the world is one error line whose argument is the object's
  concrete type: no call reaches the underlying transaction, a statement or a delegate.
\<close>

theorem dispatch_without_capability:
  "(\<not> implements obj Getter \<longrightarrow>
      Getx e obj qx (tx, w) =
        (Some ErrNoGetterFound, tx,
         emit (LogLine Error ''No getter found for object: %s'' [AType (type_name obj)]) w)
      \<and> Get e obj qx (tx, w) =
        (Some ErrNoGetterFound, tx,
         emit (LogLine Error ''No getter found for object: %s'' [AType (type_name obj)]) w))
   \<and> (\<not> implements obj Inserter \<longrightarrow>
      Insert e obj (tx, w) =
        (Some ErrNoInserterFound, tx,
         emit (LogLine Error ''No inserter found for object: %s'' [AType (type_name obj)]) w))
   \<and> (\<not> implements obj Updater \<longrightarrow>
      Update e obj (tx, w) =
        (Some ErrNoUpdaterFound, tx,
         emit (LogLine Error ''No updater found for object: %s'' [AType (type_name obj)]) w))
   \<and> (\<not> implements obj InsertOrUpdater \<longrightarrow>
      InsertOrUpdate e obj (tx, w) =
        (Some ErrNoInsertOrUpdaterFound, tx,
         emit (LogLine Error ''No InsertOrUpdate found for object: %s'' [AType (type_name obj)]) w))
   \<and> (\<not> implements obj Deleter \<longrightarrow>
      Delete e obj (tx, w) =
        (Some ErrNoDeleterFound, tx,
         emit (LogLine Error ''No deleter found for object: %s'' [AType (type_name obj)]) w))
   \<and> calls_of (trace (emit (LogLine Error fmt [AType (type_name obj)]) w)) = calls_of (trace w)"
  by (simp add: Getx_def Get_def Insert_def Update_def InsertOrUpdate_def Delete_def
      calls_of_emit_LogLine)

theorem dispatch_without_capability_witness:
  "Getx failing_env plain_object demo_qx (demo_tx, demo_world) =
     (Some ErrNoGetterFound, demo_tx,
      \<lparr>trace = [LogLine Error ''No getter found for object: %s'' [AType ''*model.Plain'']],
       ticks = 0\<rparr>)
   \<and> Get failing_env plain_object demo_qx (demo_tx, demo_world) =
     (Some ErrNoGetterFound, demo_tx,
      \<lparr>trace = [LogLine Error ''No getter found for object: %s'' [AType ''*model.Plain'']],
       ticks = 0\<rparr>)
   \<and> Insert failing_env plain_object (demo_tx, demo_world) =
     (Some ErrNoInserterFound, demo_tx,
      \<lparr>trace = [LogLine Error ''No inserter found for object: %s'' [AType ''*model.Plain'']],
       ticks = 0\<rparr>)
   \<and> Update failing_env plain_object (demo_tx, demo_world) =
     (Some ErrNoUpdaterFound, demo_tx,
      \<lparr>trace = [LogLine Error ''No updater found for object: %s'' [AType ''*model.Plain'']],
       ticks = 0\<rparr>)
   \<and> InsertOrUpdate failing_env plain_object (demo_tx, demo_world) =
     (Some ErrNoInsertOrUpdaterFound, demo_tx,
      \<lparr>trace = [LogLine Error ''No InsertOrUpdate found for object: %s'' [AType ''*model.Plain'']],
       ticks = 0\<rparr>)
   \<and> Delete failing_env plain_object (demo_tx, demo_world) =
     (Some ErrNoDeleterFound, demo_tx,
      \<lparr>trace = [LogLine Error ''No deleter found for object: %s'' [AType ''*model.Plain'']],
       ticks = 0\<rparr>)"
proof -
  have h: "\<not> implements plain_object c" for c
    by (simp add: implements_def plain_object_def)
  show ?thesis
    using dispatch_without_capability [of plain_object failing_env demo_qx demo_tx demo_world] h
    by (simp add: emit_def demo_world_def plain_object_def)
qed

text \<open>
  C5. When the object implements the capability, the dispatcher calls that one delegate
  method exactly once, with the transaction's underlying handle (and, for get, the
  \<open>Queryx\<close> as given), calls nothing else, and returns the delegate's answer unchanged.
\<close>

theorem dispatch_with_capability:
  "(implements obj Getter \<longrightarrow>
      delegated e (Getter_Get obj (Tx tx) qx) (tx, w) (Getx e obj qx (tx, w))
      \<and> delegated e (Getter_Get obj (Tx tx) qx) (tx, w) (Get e obj qx (tx, w)))
   \<and> (implements obj Inserter \<longrightarrow>
      delegated e (Inserter_Insert obj (Tx tx)) (tx, w) (Insert e obj (tx, w)))
   \<and> (implements obj Updater \<longrightarrow>
      delegated e (Updater_Update obj (Tx tx)) (tx, w) (Update e obj (tx, w)))
   \<and> (implements obj InsertOrUpdater \<longrightarrow>
      delegated e (InsertOrUpdater_InsertOrUpdate obj (Tx tx)) (tx, w)
        (InsertOrUpdate e obj (tx, w)))
   \<and> (implements obj Deleter \<longrightarrow>
      delegated e (Deleter_Delete obj (Tx tx)) (tx, w) (Delete e obj (tx, w)))"
  by (simp add: delegated_def Getx_def Get_def Insert_def Update_def InsertOrUpdate_def
      Delete_def call_error_def calls_of_emit_Call calls_of_emit_LogLine split: option.splits)

theorem dispatch_with_capability_witness:
  "Getx failing_env full_object demo_qx (demo_tx, demo_world) =
     (Some (DriverError ''deadlock''), demo_tx,
      \<lparr>trace = [Call (Getter_Get full_object 7 demo_qx)], ticks = 0\<rparr>)
   \<and> delegated failing_env (Getter_Get full_object 7 demo_qx) (demo_tx, demo_world)
        (Get failing_env full_object demo_qx (demo_tx, demo_world))
   \<and> delegated failing_env (Inserter_Insert full_object 7) (demo_tx, demo_world)
        (Insert failing_env full_object (demo_tx, demo_world))
   \<and> delegated demo_env (Updater_Update full_object 7) (demo_tx, demo_world)
        (Update demo_env full_object (demo_tx, demo_world))
   \<and> delegated demo_env (InsertOrUpdater_InsertOrUpdate full_object 7) (demo_tx, demo_world)
        (InsertOrUpdate demo_env full_object (demo_tx, demo_world))
   \<and> delegated demo_env (Deleter_Delete full_object 7) (demo_tx, demo_world)
        (Delete demo_env full_object (demo_tx, demo_world))"
proof -
  have h: "implements full_object c" for c
    by (cases c) (simp_all add: implements_def full_object_def)
  have t: "Tx demo_tx = 7"
    by (simp add: demo_tx_def)
  have g: "Getx failing_env full_object demo_qx (demo_tx, demo_world) =
     (Some (DriverError ''deadlock''), demo_tx,
      \<lparr>trace = [Call (Getter_Get full_object 7 demo_qx)], ticks = 0\<rparr>)"
    using h [of Getter]
    by (simp add: Getx_def call_error_def emit_def failing_env_def demo_env_def demo_tx_def
        demo_world_def)
  show ?thesis
    using dispatch_with_capability [of full_object failing_env demo_tx demo_qx demo_world]
      dispatch_with_capability [of full_object demo_env demo_tx demo_qx demo_world] h g
    by (simp add: t)
qed

text \<open>
  C9. \<open>Get\<close> and \<open>Getx\<close> are the same function: same result, same transaction record, same
  trace of calls and log lines, for every object, \<open>Queryx\<close> and state.
\<close>

theorem Get_is_Getx: "Get e obj qx s = Getx e obj qx s"
  by (simp add: Get_def Getx_def)

subsection \<open>Selectx and Countx\<close>

lemma Wrap_options_apply_in_order:
  "Wrap_options options q params = apply_in_order options (q, params)"
  by (induction options q params rule: Wrap_options.induct)
     (simp_all add: apply_in_order_def split: prod.splits)

lemma apply_in_order_snoc:
  "apply_in_order (options @ [option]) qp =
     option (fst (apply_in_order options qp)) (snd (apply_in_order options qp))"
  by (simp add: apply_in_order_def)

text \<open>
  C6. The loop of \<open>Selectx\<close> applies the options left to right, each to the text and the
  parameters the previous one returned. With the final text and parameters, \<open>Selectx\<close>
  calls the object's \<open>Select\<close> when the object is a \<open>Selecter\<close>; otherwise it obtains the
  statement from \<open>Preparex\<close> (returning its error if it fails) and runs the statement's
  generic select into the object.
\<close>

theorem Selectx_options_then_dispatch:
  "Wrap_options options (Query qx) (Params qx) = apply_in_order options (Query qx, Params qx)
   \<and> apply_in_order [] (Query qx, Params qx) = (Query qx, Params qx)
   \<and> apply_in_order (options @ [option]) (Query qx, Params qx) =
       option (fst (apply_in_order options (Query qx, Params qx)))
              (snd (apply_in_order options (Query qx, Params qx)))
   \<and> (apply_in_order options (Query qx, Params qx) = (q, params) \<longrightarrow>
        (implements obj Selecter \<longrightarrow>
           Selectx e obj qx options (tx, w) =
             (ret_error e (trace w @ [LogLine Debug q []]) (Selecter_Select obj (Tx tx) q params),
              tx,
              w\<lparr>trace := trace w @ [LogLine Debug q [],
                                     Call (Selecter_Select obj (Tx tx) q params)]\<rparr>))
        \<and> (\<not> implements obj Selecter \<longrightarrow>
           Selectx e obj qx options (tx, w) =
             (case Preparex e q (tx, emit (LogLine Debug q []) w) of
                (Inl err, tx', w') \<Rightarrow> (Some err, tx', w')
              | (Inr stmt, tx', w') \<Rightarrow>
                  (ret_error e (trace w') (Stmt_Select stmt obj params), tx',
                   emit (Call (Stmt_Select stmt obj params)) w'))))"
  by (simp add: Wrap_options_apply_in_order apply_in_order_snoc Selectx_def call_error_def
      emit_def split: prod.splits sum.splits)
     (simp add: apply_in_order_def)

theorem Selectx_options_then_dispatch_witness:
  "Selectx demo_env full_object demo_qx [paginate, filterActive] (demo_tx, demo_world) =
     (None, demo_tx,
      \<lparr>trace =
         [LogLine Debug ''SELECT * FROM (SELECT id FROM alerts LIMIT ?) t WHERE active = ?'' [],
          Call (Selecter_Select full_object 7
                  ''SELECT * FROM (SELECT id FROM alerts LIMIT ?) t WHERE active = ?''
                  [PBool True, PInt 1, PInt 10])],
       ticks = 0\<rparr>)
   \<and> Selectx demo_env plain_object demo_qx [filterActive, paginate] (demo_tx, demo_world) =
     (None,
      demo_tx\<lparr>statementsCache :=
                 [''SELECT * FROM (SELECT id FROM alerts) t WHERE active = ? LIMIT ?'' \<mapsto> 1],
               queries := [''SELECT * FROM (SELECT id FROM alerts) t WHERE active = ? LIMIT ?'']\<rparr>,
      \<lparr>trace =
         [LogLine Debug ''SELECT * FROM (SELECT id FROM alerts) t WHERE active = ? LIMIT ?'' [],
          Call (sqlx_Preparex 7 ''SELECT * FROM (SELECT id FROM alerts) t WHERE active = ? LIMIT ?''),
          Call (Stmt_Select 1 plain_object [PBool True, PInt 1, PInt 10])],
       ticks = 0\<rparr>)"
proof -
  have a1: "apply_in_order [paginate, filterActive] (Query demo_qx, Params demo_qx) =
      (''SELECT * FROM (SELECT id FROM alerts LIMIT ?) t WHERE active = ?'',
       [PBool True, PInt 1, PInt 10])"
    by (simp add: apply_in_order_def paginate_def filterActive_def demo_qx_def)
  have a2: "apply_in_order [filterActive, paginate] (Query demo_qx, Params demo_qx) =
      (''SELECT * FROM (SELECT id FROM alerts) t WHERE active = ? LIMIT ?'',
       [PBool True, PInt 1, PInt 10])"
    by (simp add: apply_in_order_def paginate_def filterActive_def demo_qx_def)
  have h1: "implements full_object Selecter"
    by (simp add: implements_def full_object_def)
  have h2: "\<not> implements plain_object Selecter"
    by (simp add: implements_def plain_object_def)
  have p: "Preparex demo_env ''SELECT * FROM (SELECT id FROM alerts) t WHERE active = ? LIMIT ?''
             (demo_tx, emit (LogLine Debug
                ''SELECT * FROM (SELECT id FROM alerts) t WHERE active = ? LIMIT ?'' []) demo_world) =
     (Inr 1,
      demo_tx\<lparr>statementsCache :=
                 [''SELECT * FROM (SELECT id FROM alerts) t WHERE active = ? LIMIT ?'' \<mapsto> 1],
               queries := [''SELECT * FROM (SELECT id FROM alerts) t WHERE active = ? LIMIT ?'']\<rparr>,
      \<lparr>trace =
         [LogLine Debug ''SELECT * FROM (SELECT id FROM alerts) t WHERE active = ? LIMIT ?'' [],
          Call (sqlx_Preparex 7 ''SELECT * FROM (SELECT id FROM alerts) t WHERE active = ? LIMIT ?'')],
       ticks = 0\<rparr>)"
    by (simp add: Preparex_def Load_def Store_def emit_def demo_env_def demo_tx_def demo_world_def)
  show ?thesis
    using Selectx_options_then_dispatch [of "[paginate, filterActive]" demo_qx paginate
        "''SELECT * FROM (SELECT id FROM alerts LIMIT ?) t WHERE active = ?''"
        "[PBool True, PInt 1, PInt 10]" full_object demo_env demo_tx demo_world]
      Selectx_options_then_dispatch [of "[filterActive, paginate]" demo_qx paginate
        "''SELECT * FROM (SELECT id FROM alerts) t WHERE active = ? LIMIT ?''"
        "[PBool True, PInt 1, PInt 10]" plain_object demo_env demo_tx demo_world]
      a1 a2 h1 h2
    by (simp add: p) (simp add: emit_def demo_env_def demo_tx_def demo_world_def)
qed

text \<open>
  C7. \<open>Countx\<close> hands exactly \<open>SELECT COUNT(*) FROM (Q) q\<close> to \<open>Preparex\<close>. If that fails,
  \<open>Countx\<close> returns 0 with the error (on a cache miss, the driver's own error, after the
  one prepare call). Otherwise it runs the statement's \<open>Get\<close> with the parameters of the
  \<open>Queryx\<close> and returns the scanned count (0 if nothing was scanned) with that call's
  error.
\<close>

theorem Countx_wraps_query:
  "(Preparex e (''SELECT COUNT(*) FROM ('' @ Query qx @ '') q'') s = (Inl err, tx', w') \<longrightarrow>
      Countx e qx s = ((0, Some err), tx', w'))
   \<and> (Preparex e (''SELECT COUNT(*) FROM ('' @ Query qx @ '') q'') s = (Inr stmt, tx', w') \<longrightarrow>
        (ret_scan e (trace w') stmt (Params qx) = (Some n, err') \<longrightarrow>
           Countx e qx s = ((n, err'), tx', emit (Call (Stmt_Get stmt (Params qx))) w'))
        \<and> (ret_scan e (trace w') stmt (Params qx) = (None, err') \<longrightarrow>
           Countx e qx s = ((0, err'), tx', emit (Call (Stmt_Get stmt (Params qx))) w')))
   \<and> (statementsCache (fst s) (''SELECT COUNT(*) FROM ('' @ Query qx @ '') q'') = None \<longrightarrow>
        drv_Preparex e (trace (snd s)) (Tx (fst s)) (''SELECT COUNT(*) FROM ('' @ Query qx @ '') q'')
          = Inl err \<longrightarrow>
        fst (Countx e qx s) = (0, Some err)
        \<and> calls_of (trace (snd (snd (Countx e qx s)))) =
            calls_of (trace (snd s)) @
              [sqlx_Preparex (Tx (fst s)) (''SELECT COUNT(*) FROM ('' @ Query qx @ '') q'')])"
  by (cases s)
     (simp add: Countx_def Preparex_def Load_def Let_def calls_of_emit_Call)

theorem Countx_wraps_query_witness:
  "Countx demo_env demo_qx (demo_tx, demo_world) =
     ((3, None),
      demo_tx\<lparr>statementsCache := [''SELECT COUNT(*) FROM (SELECT id FROM alerts) q'' \<mapsto> 0],
               queries := [''SELECT COUNT(*) FROM (SELECT id FROM alerts) q'']\<rparr>,
      \<lparr>trace = [Call (sqlx_Preparex 7 ''SELECT COUNT(*) FROM (SELECT id FROM alerts) q''),
                Call (Stmt_Get 0 [PInt 1])],
       ticks = 0\<rparr>)
   \<and> Countx offline_env demo_qx (demo_tx, demo_world) =
     ((0, Some (DriverError ''connection lost'')),
      demo_tx\<lparr>queries := [''SELECT COUNT(*) FROM (SELECT id FROM alerts) q'']\<rparr>,
      \<lparr>trace = [Call (sqlx_Preparex 7 ''SELECT COUNT(*) FROM (SELECT id FROM alerts) q'')],
       ticks = 0\<rparr>)"
proof -
  let ?tx1 = "demo_tx\<lparr>statementsCache :=
                         [''SELECT COUNT(*) FROM (SELECT id FROM alerts) q'' \<mapsto> 0],
                       queries := [''SELECT COUNT(*) FROM (SELECT id FROM alerts) q'']\<rparr>"
  let ?w1 = "\<lparr>trace = [Call (sqlx_Preparex 7 ''SELECT COUNT(*) FROM (SELECT id FROM alerts) q'')],
              ticks = 0\<rparr>"
  let ?tx2 = "demo_tx\<lparr>queries := [''SELECT COUNT(*) FROM (SELECT id FROM alerts) q'']\<rparr>"
  have p1: "Preparex demo_env (''SELECT COUNT(*) FROM ('' @ Query demo_qx @ '') q'')
              (demo_tx, demo_world) = (Inr 0, ?tx1, ?w1)"
    by (simp add: Preparex_def Load_def Store_def emit_def demo_env_def demo_tx_def
        demo_world_def demo_qx_def)
  have s1: "ret_scan demo_env (trace ?w1) 0 (Params demo_qx) = (Some 3, None)"
    by (simp add: demo_env_def)
  have p2: "Preparex offline_env (''SELECT COUNT(*) FROM ('' @ Query demo_qx @ '') q'')
              (demo_tx, demo_world) = (Inl (DriverError ''connection lost''), ?tx2, ?w1)"
    by (simp add: Preparex_def Load_def emit_def offline_env_def demo_tx_def demo_world_def
        demo_qx_def)
  have c1: "Countx demo_env demo_qx (demo_tx, demo_world) =
              ((3, None), ?tx1, emit (Call (Stmt_Get 0 (Params demo_qx))) ?w1)"
    using Countx_wraps_query [of demo_env demo_qx "(demo_tx, demo_world)"
        "DriverError []" ?tx1 ?w1 0 3 None]
      p1 s1 by simp
  have c2: "Countx offline_env demo_qx (demo_tx, demo_world) =
              ((0, Some (DriverError ''connection lost'')), ?tx2, ?w1)"
    using Countx_wraps_query [of offline_env demo_qx "(demo_tx, demo_world)"
        "DriverError ''connection lost''" ?tx2 ?w1]
      p2 by simp
  show ?thesis
    unfolding c1 c2 by (simp add: emit_def demo_qx_def)
qed

text \<open>
  C10. When the target object is a \<open>Selecter\<close>, \<open>Selectx\<close> returns the transaction record
  as it was (statement cache and query log included); all it does to the world is the
  debug line and the one call of \<open>Select\<close>, so the number of prepares the underlying
  transaction has seen is the same for every text.
\<close>

theorem Selectx_Selecter_frame:
  assumes "implements obj Selecter"
    and "Wrap_options options (Query qx) (Params qx) = (q, params)"
  shows "fst (snd (Selectx e obj qx options (tx, w))) = tx
     \<and> trace (snd (snd (Selectx e obj qx options (tx, w)))) =
         trace w @ [LogLine Debug q [], Call (Selecter_Select obj (Tx tx) q params)]
     \<and> driver_prepares text (snd (snd (Selectx e obj qx options (tx, w)))) = driver_prepares text w
     \<and> queries (fst (run e [OpSelectx obj qx options] (tx, w))) = queries tx
     \<and> statementsCache (fst (run e [OpSelectx obj qx options] (tx, w))) = statementsCache tx"
  using assms
  by (simp add: Selectx_def call_error_def emit_def driver_prepares_def)

theorem Selectx_Selecter_frame_witness:
  "fst (snd (Selectx demo_env full_object demo_qx [paginate] (demo_tx, demo_world))) = demo_tx
   \<and> trace (snd (snd (Selectx demo_env full_object demo_qx [paginate] (demo_tx, demo_world)))) =
       [LogLine Debug ''SELECT id FROM alerts LIMIT ?'' [],
        Call (Selecter_Select full_object 7 ''SELECT id FROM alerts LIMIT ?'' [PInt 1, PInt 10])]"
proof -
  have h1: "implements full_object Selecter"
    by (simp add: implements_def full_object_def)
  have h2: "Wrap_options [paginate] (Query demo_qx) (Params demo_qx) =
              (''SELECT id FROM alerts LIMIT ?'', [PInt 1, PInt 10])"
    by (simp add: paginate_def demo_qx_def)
  show ?thesis
    using Selectx_Selecter_frame [OF h1 h2, of demo_env demo_tx demo_world]
    by (simp add: demo_tx_def demo_world_def)
qed

section \<open>Properties of the generator\<close>

lemma Update_stamps_eq:
  "Update_stamps columns buf =
     buf @ concat (map (\<lambda>c. if c = ''updated_at'' then UpdatedAt_line else []) columns)"
  by (induction columns arbitrary: buf) (simp_all add: Printf_def)

lemma InsertOrUpdate_stamps_eq:
  "InsertOrUpdate_stamps columns buf =
     buf @ concat (map (\<lambda>c. if c = ''created_at'' then []
                            else if c = ''updated_at'' then UpdatedAt_line else []) columns)"
  by (induction columns arbitrary: buf) (simp_all add: Printf_def)

lemma Insert_stamps_eq:
  "Insert_stamps columns buf =
     buf @ concat (map (\<lambda>c. if c = ''created_at'' then CreatedAt_line
                            else if c = ''updated_at'' then UpdatedAt_line else []) columns)"
  by (induction columns arbitrary: buf) (simp_all add: Printf_def)

lemma concat_map_mem:
  assumes "c \<in> set columns"
  shows "\<exists>pre post. concat (map f columns) = pre @ f c @ post"
proof -
  from assms obtain xs ys where "columns = xs @ c # ys"
    by (auto simp: in_set_conv_decomp)
  then have "concat (map f columns) = concat (map f xs) @ f c @ concat (map f ys)"
    by simp
  then show ?thesis by blast
qed

lemma generate_Insert_text:
  "generate_Insert name columns buf =
         buf @ ''func (s *'' @ name @ '') Insert(tx *sqlx.Tx) error {'' @ [CHR 0x0A] @
           concat (map (\<lambda>c. if c = ''created_at'' then ''s.CreatedAt = time.Now()'' @ [CHR 0x0A]
                    else if c = ''updated_at'' then ''s.UpdatedAt = time.Now()'' @ [CHR 0x0A]
                    else []) columns) @
           [CHR 0x0A, CHR 0x09, CHR 0x09, CHR 0x09] @ ''_, err := tx.NamedExec(string(query'' @ name @ ''Insert), s)'' @
           [CHR 0x0A, CHR 0x09, CHR 0x09, CHR 0x09] @ ''return err'' @ [CHR 0x0A, CHR 0x09, CHR 0x09] @ ''}'' @ [CHR 0x0A, CHR 0x09, CHR 0x09]"
  unfolding generate_Insert_def Printf_def Insert_stamps_eq Insert_head_def Insert_exec_def
    CreatedAt_line_def UpdatedAt_line_def nl_def tab_def
  by simp

lemma generate_Update_text:
  "generate_Update name columns buf =
       buf @ ''func (s *'' @ name @ '') Update(tx *sqlx.Tx) error {'' @ [CHR 0x0A] @
         concat (map (\<lambda>c. if c = ''updated_at'' then ''s.UpdatedAt = time.Now()'' @ [CHR 0x0A] else []) columns) @
         '' _, err := tx.NamedExec(string(query'' @ name @ ''Update), s)'' @
         [CHR 0x0A, CHR 0x09, CHR 0x09, CHR 0x09] @ ''return err'' @ [CHR 0x0A, CHR 0x09, CHR 0x09] @ ''}'' @ [CHR 0x0A, CHR 0x09, CHR 0x09]"
  unfolding generate_Update_def Printf_def Update_stamps_eq Update_head_def Update_exec_def
    UpdatedAt_line_def nl_def tab_def
  by simp

lemma generate_InsertOrUpdate_text:
  "generate_InsertOrUpdate name columns buf =
       buf @ ''func (s *'' @ name @ '') InsertOrUpdate(tx *sqlx.Tx) error {'' @ [CHR 0x0A] @
         concat (map (\<lambda>c. if c = ''created_at'' then []
                  else if c = ''updated_at'' then ''s.UpdatedAt = time.Now()'' @ [CHR 0x0A]
                  else []) columns) @
         [CHR 0x0A, CHR 0x09, CHR 0x09, CHR 0x09] @ ''_, err := tx.NamedExec(string(query'' @ name @ ''InsertOrUpdate), s)'' @
         [CHR 0x0A, CHR 0x09, CHR 0x09, CHR 0x09] @ ''return err'' @ [CHR 0x0A, CHR 0x09, CHR 0x09] @ ''}'' @ [CHR 0x0A, CHR 0x09, CHR 0x09]"
  unfolding generate_InsertOrUpdate_def Printf_def InsertOrUpdate_stamps_eq
    InsertOrUpdate_head_def InsertOrUpdate_exec_def UpdatedAt_line_def nl_def tab_def
  by simp

text \<open>
  C8. The text emitted for the method \<open>Insert\<close>, \<open>Update\<close> and \<open>InsertOrUpdate\<close> of a type
  is the method's head, then one assignment line per timestamp column, in column order,
  then the statement that executes the query. So for a type with a column \<open>created_at\<close>
  the emitted \<open>Insert\<close> has the line \<open>s.CreatedAt = time.Now()\<close> between its head and the
  \<open>NamedExec\<close> statement, and with a column \<open>updated_at\<close> each of \<open>Insert\<close>, \<open>Update\<close> and
  \<open>InsertOrUpdate\<close> has the line \<open>s.UpdatedAt = time.Now()\<close> there. The emitted text is
  written out character by character.
\<close>

theorem generated_methods_set_timestamps:
  "generate_Insert name columns buf =
       buf @ ''func (s *'' @ name @ '') Insert(tx *sqlx.Tx) error {'' @ [CHR 0x0A] @
         concat (map (\<lambda>c. if c = ''created_at'' then ''s.CreatedAt = time.Now()'' @ [CHR 0x0A]
                  else if c = ''updated_at'' then ''s.UpdatedAt = time.Now()'' @ [CHR 0x0A]
                  else []) columns) @
         [CHR 0x0A, CHR 0x09, CHR 0x09, CHR 0x09] @ ''_, err := tx.NamedExec(string(query'' @ name @ ''Insert), s)'' @
         [CHR 0x0A, CHR 0x09, CHR 0x09, CHR 0x09] @ ''return err'' @ [CHR 0x0A, CHR 0x09, CHR 0x09] @ ''}'' @ [CHR 0x0A, CHR 0x09, CHR 0x09]
   \<and> generate_Update name columns buf =
       buf @ ''func (s *'' @ name @ '') Update(tx *sqlx.Tx) error {'' @ [CHR 0x0A] @
         concat (map (\<lambda>c. if c = ''updated_at'' then ''s.UpdatedAt = time.Now()'' @ [CHR 0x0A] else []) columns) @
         '' _, err := tx.NamedExec(string(query'' @ name @ ''Update), s)'' @
         [CHR 0x0A, CHR 0x09, CHR 0x09, CHR 0x09] @ ''return err'' @ [CHR 0x0A, CHR 0x09, CHR 0x09] @ ''}'' @ [CHR 0x0A, CHR 0x09, CHR 0x09]
   \<and> generate_InsertOrUpdate name columns buf =
       buf @ ''func (s *'' @ name @ '') InsertOrUpdate(tx *sqlx.Tx) error {'' @ [CHR 0x0A] @
         concat (map (\<lambda>c. if c = ''created_at'' then []
                  else if c = ''updated_at'' then ''s.UpdatedAt = time.Now()'' @ [CHR 0x0A]
                  else []) columns) @
         [CHR 0x0A, CHR 0x09, CHR 0x09, CHR 0x09] @ ''_, err := tx.NamedExec(string(query'' @ name @ ''InsertOrUpdate), s)'' @
         [CHR 0x0A, CHR 0x09, CHR 0x09, CHR 0x09] @ ''return err'' @ [CHR 0x0A, CHR 0x09, CHR 0x09] @ ''}'' @ [CHR 0x0A, CHR 0x09, CHR 0x09]
   \<and> (''created_at'' \<in> set columns \<longrightarrow>
      (\<exists>pre post. generate_Insert name columns buf =
         buf @ ''func (s *'' @ name @ '') Insert(tx *sqlx.Tx) error {'' @ [CHR 0x0A] @
         pre @ ''s.CreatedAt = time.Now()'' @ [CHR 0x0A] @ post @
         [CHR 0x0A, CHR 0x09, CHR 0x09, CHR 0x09] @ ''_, err := tx.NamedExec(string(query'' @ name @ ''Insert), s)'' @
         [CHR 0x0A, CHR 0x09, CHR 0x09, CHR 0x09] @ ''return err'' @ [CHR 0x0A, CHR 0x09, CHR 0x09] @ ''}'' @ [CHR 0x0A, CHR 0x09, CHR 0x09]))
   \<and> (''updated_at'' \<in> set columns \<longrightarrow>
      (\<exists>pre post. generate_Insert name columns buf =
         buf @ ''func (s *'' @ name @ '') Insert(tx *sqlx.Tx) error {'' @ [CHR 0x0A] @
         pre @ ''s.UpdatedAt = time.Now()'' @ [CHR 0x0A] @ post @
         [CHR 0x0A, CHR 0x09, CHR 0x09, CHR 0x09] @ ''_, err := tx.NamedExec(string(query'' @ name @ ''Insert), s)'' @
         [CHR 0x0A, CHR 0x09, CHR 0x09, CHR 0x09] @ ''return err'' @ [CHR 0x0A, CHR 0x09, CHR 0x09] @ ''}'' @ [CHR 0x0A, CHR 0x09, CHR 0x09])
      \<and> (\<exists>pre post. generate_Update name columns buf =
         buf @ ''func (s *'' @ name @ '') Update(tx *sqlx.Tx) error {'' @ [CHR 0x0A] @
         pre @ ''s.UpdatedAt = time.Now()'' @ [CHR 0x0A] @ post @
         '' _, err := tx.NamedExec(string(query'' @ name @ ''Update), s)'' @
         [CHR 0x0A, CHR 0x09, CHR 0x09, CHR 0x09] @ ''return err'' @ [CHR 0x0A, CHR 0x09, CHR 0x09] @ ''}'' @ [CHR 0x0A, CHR 0x09, CHR 0x09])
      \<and> (\<exists>pre post. generate_InsertOrUpdate name columns buf =
         buf @ ''func (s *'' @ name @ '') InsertOrUpdate(tx *sqlx.Tx) error {'' @ [CHR 0x0A] @
         pre @ ''s.UpdatedAt = time.Now()'' @ [CHR 0x0A] @ post @
         [CHR 0x0A, CHR 0x09, CHR 0x09, CHR 0x09] @ ''_, err := tx.NamedExec(string(query'' @ name @ ''InsertOrUpdate), s)'' @
         [CHR 0x0A, CHR 0x09, CHR 0x09, CHR 0x09] @ ''return err'' @ [CHR 0x0A, CHR 0x09, CHR 0x09] @ ''}'' @ [CHR 0x0A, CHR 0x09, CHR 0x09]))"
proof -
  have created: "\<exists>pre post. concat (map f columns) = pre @ f ''created_at'' @ post"
    if "''created_at'' \<in> set columns" for f :: "string \<Rightarrow> string"
    using that by (rule concat_map_mem)
  have updated: "\<exists>pre post. concat (map f columns) = pre @ f ''updated_at'' @ post"
    if "''updated_at'' \<in> set columns" for f :: "string \<Rightarrow> string"
    using that by (rule concat_map_mem)
  show ?thesis
  proof (intro conjI impI)
    show "generate_Insert name columns buf =
         buf @ ''func (s *'' @ name @ '') Insert(tx *sqlx.Tx) error {'' @ [CHR 0x0A] @
           concat (map (\<lambda>c. if c = ''created_at'' then ''s.CreatedAt = time.Now()'' @ [CHR 0x0A]
                    else if c = ''updated_at'' then ''s.UpdatedAt = time.Now()'' @ [CHR 0x0A]
                    else []) columns) @
           [CHR 0x0A, CHR 0x09, CHR 0x09, CHR 0x09] @ ''_, err := tx.NamedExec(string(query'' @ name @ ''Insert), s)'' @
           [CHR 0x0A, CHR 0x09, CHR 0x09, CHR 0x09] @ ''return err'' @ [CHR 0x0A, CHR 0x09, CHR 0x09] @ ''}'' @ [CHR 0x0A, CHR 0x09, CHR 0x09]" by (rule generate_Insert_text)
    show "generate_Update name columns buf =
       buf @ ''func (s *'' @ name @ '') Update(tx *sqlx.Tx) error {'' @ [CHR 0x0A] @
         concat (map (\<lambda>c. if c = ''updated_at'' then ''s.UpdatedAt = time.Now()'' @ [CHR 0x0A] else []) columns) @
         '' _, err := tx.NamedExec(string(query'' @ name @ ''Update), s)'' @
         [CHR 0x0A, CHR 0x09, CHR 0x09, CHR 0x09] @ ''return err'' @ [CHR 0x0A, CHR 0x09, CHR 0x09] @ ''}'' @ [CHR 0x0A, CHR 0x09, CHR 0x09]" by (rule generate_Update_text)
    show "generate_InsertOrUpdate name columns buf =
       buf @ ''func (s *'' @ name @ '') InsertOrUpdate(tx *sqlx.Tx) error {'' @ [CHR 0x0A] @
         concat (map (\<lambda>c. if c = ''created_at'' then []
                  else if c = ''updated_at'' then ''s.UpdatedAt = time.Now()'' @ [CHR 0x0A]
                  else []) columns) @
         [CHR 0x0A, CHR 0x09, CHR 0x09, CHR 0x09] @ ''_, err := tx.NamedExec(string(query'' @ name @ ''InsertOrUpdate), s)'' @
         [CHR 0x0A, CHR 0x09, CHR 0x09, CHR 0x09] @ ''return err'' @ [CHR 0x0A, CHR 0x09, CHR 0x09] @ ''}'' @ [CHR 0x0A, CHR 0x09, CHR 0x09]" by (rule generate_InsertOrUpdate_text)
  next
    assume c: "''created_at'' \<in> set columns"
    from created [OF c, of "(\<lambda>c. if c = ''created_at'' then ''s.CreatedAt = time.Now()'' @ [CHR 0x0A]
                  else if c = ''updated_at'' then ''s.UpdatedAt = time.Now()'' @ [CHR 0x0A]
                  else [])"]
    show "\<exists>pre post. generate_Insert name columns buf =
         buf @ ''func (s *'' @ name @ '') Insert(tx *sqlx.Tx) error {'' @ [CHR 0x0A] @
         pre @ ''s.CreatedAt = time.Now()'' @ [CHR 0x0A] @ post @
         [CHR 0x0A, CHR 0x09, CHR 0x09, CHR 0x09] @ ''_, err := tx.NamedExec(string(query'' @ name @ ''Insert), s)'' @
         [CHR 0x0A, CHR 0x09, CHR 0x09, CHR 0x09] @ ''return err'' @ [CHR 0x0A, CHR 0x09, CHR 0x09] @ ''}'' @ [CHR 0x0A, CHR 0x09, CHR 0x09]"
      unfolding generate_Insert_text by fastforce
  next
    assume u: "''updated_at'' \<in> set columns"
    from updated [OF u, of "(\<lambda>c. if c = ''created_at'' then ''s.CreatedAt = time.Now()'' @ [CHR 0x0A]
                  else if c = ''updated_at'' then ''s.UpdatedAt = time.Now()'' @ [CHR 0x0A]
                  else [])"]
    show "\<exists>pre post. generate_Insert name columns buf =
         buf @ ''func (s *'' @ name @ '') Insert(tx *sqlx.Tx) error {'' @ [CHR 0x0A] @
         pre @ ''s.UpdatedAt = time.Now()'' @ [CHR 0x0A] @ post @
         [CHR 0x0A, CHR 0x09, CHR 0x09, CHR 0x09] @ ''_, err := tx.NamedExec(string(query'' @ name @ ''Insert), s)'' @
         [CHR 0x0A, CHR 0x09, CHR 0x09, CHR 0x09] @ ''return err'' @ [CHR 0x0A, CHR 0x09, CHR 0x09] @ ''}'' @ [CHR 0x0A, CHR 0x09, CHR 0x09]"
      unfolding generate_Insert_text by fastforce
    from updated [OF u, of "(\<lambda>c. if c = ''updated_at'' then ''s.UpdatedAt = time.Now()'' @ [CHR 0x0A] else [])"]
    show "\<exists>pre post. generate_Update name columns buf =
         buf @ ''func (s *'' @ name @ '') Update(tx *sqlx.Tx) error {'' @ [CHR 0x0A] @
         pre @ ''s.UpdatedAt = time.Now()'' @ [CHR 0x0A] @ post @
         '' _, err := tx.NamedExec(string(query'' @ name @ ''Update), s)'' @
         [CHR 0x0A, CHR 0x09, CHR 0x09, CHR 0x09] @ ''return err'' @ [CHR 0x0A, CHR 0x09, CHR 0x09] @ ''}'' @ [CHR 0x0A, CHR 0x09, CHR 0x09]"
      unfolding generate_Update_text by fastforce
    from updated [OF u, of "(\<lambda>c. if c = ''created_at'' then []
                  else if c = ''updated_at'' then ''s.UpdatedAt = time.Now()'' @ [CHR 0x0A]
                  else [])"]
    show "\<exists>pre post. generate_InsertOrUpdate name columns buf =
         buf @ ''func (s *'' @ name @ '') InsertOrUpdate(tx *sqlx.Tx) error {'' @ [CHR 0x0A] @
         pre @ ''s.UpdatedAt = time.Now()'' @ [CHR 0x0A] @ post @
         [CHR 0x0A, CHR 0x09, CHR 0x09, CHR 0x09] @ ''_, err := tx.NamedExec(string(query'' @ name @ ''InsertOrUpdate), s)'' @
         [CHR 0x0A, CHR 0x09, CHR 0x09, CHR 0x09] @ ''return err'' @ [CHR 0x0A, CHR 0x09, CHR 0x09] @ ''}'' @ [CHR 0x0A, CHR 0x09, CHR 0x09]"
      unfolding generate_InsertOrUpdate_text by fastforce
  qed
qed

theorem generated_methods_set_timestamps_witness:
  "''created_at'' \<in> set [''id'', ''created_at'', ''updated_at'']
   \<and> ''updated_at'' \<in> set [''id'', ''created_at'', ''updated_at'']
   \<and> generate_Insert ''Alert'' [''id'', ''created_at'', ''updated_at''] [] =
       ''func (s *'' @ ''Alert'' @ '') Insert(tx *sqlx.Tx) error {'' @ [CHR 0x0A] @
         ''s.CreatedAt = time.Now()'' @ [CHR 0x0A] @
         ''s.UpdatedAt = time.Now()'' @ [CHR 0x0A] @
         [CHR 0x0A, CHR 0x09, CHR 0x09, CHR 0x09] @ ''_, err := tx.NamedExec(string(query'' @ ''Alert'' @ ''Insert), s)'' @
         [CHR 0x0A, CHR 0x09, CHR 0x09, CHR 0x09] @ ''return err'' @ [CHR 0x0A, CHR 0x09, CHR 0x09] @ ''}'' @ [CHR 0x0A, CHR 0x09, CHR 0x09]
   \<and> generate_Update ''Alert'' [''id'', ''created_at'', ''updated_at''] [] =
       ''func (s *'' @ ''Alert'' @ '') Update(tx *sqlx.Tx) error {'' @ [CHR 0x0A] @
         ''s.UpdatedAt = time.Now()'' @ [CHR 0x0A] @
         '' _, err := tx.NamedExec(string(query'' @ ''Alert'' @ ''Update), s)'' @
         [CHR 0x0A, CHR 0x09, CHR 0x09, CHR 0x09] @ ''return err'' @ [CHR 0x0A, CHR 0x09, CHR 0x09] @ ''}'' @ [CHR 0x0A, CHR 0x09, CHR 0x09]
   \<and> generate_InsertOrUpdate ''Alert'' [''id'', ''created_at'', ''updated_at''] [] =
       ''func (s *'' @ ''Alert'' @ '') InsertOrUpdate(tx *sqlx.Tx) error {'' @ [CHR 0x0A] @
         ''s.UpdatedAt = time.Now()'' @ [CHR 0x0A] @
         [CHR 0x0A, CHR 0x09, CHR 0x09, CHR 0x09] @ ''_, err := tx.NamedExec(string(query'' @ ''Alert'' @ ''InsertOrUpdate), s)'' @
         [CHR 0x0A, CHR 0x09, CHR 0x09, CHR 0x09] @ ''return err'' @ [CHR 0x0A, CHR 0x09, CHR 0x09] @ ''}'' @ [CHR 0x0A, CHR 0x09, CHR 0x09]
   \<and> (\<exists>pre post. generate_Insert ''Alert'' [''id'', ''created_at'', ''updated_at''] [] =
         [] @ ''func (s *'' @ ''Alert'' @ '') Insert(tx *sqlx.Tx) error {'' @ [CHR 0x0A] @
         pre @ ''s.CreatedAt = time.Now()'' @ [CHR 0x0A] @ post @
         [CHR 0x0A, CHR 0x09, CHR 0x09, CHR 0x09] @ ''_, err := tx.NamedExec(string(query'' @ ''Alert'' @ ''Insert), s)'' @
         [CHR 0x0A, CHR 0x09, CHR 0x09, CHR 0x09] @ ''return err'' @ [CHR 0x0A, CHR 0x09, CHR 0x09] @ ''}'' @ [CHR 0x0A, CHR 0x09, CHR 0x09])
   \<and> (\<exists>pre post. generate_Update ''Alert'' [''id'', ''created_at'', ''updated_at''] [] =
         [] @ ''func (s *'' @ ''Alert'' @ '') Update(tx *sqlx.Tx) error {'' @ [CHR 0x0A] @
         pre @ ''s.UpdatedAt = time.Now()'' @ [CHR 0x0A] @ post @
         '' _, err := tx.NamedExec(string(query'' @ ''Alert'' @ ''Update), s)'' @
         [CHR 0x0A, CHR 0x09, CHR 0x09, CHR 0x09] @ ''return err'' @ [CHR 0x0A, CHR 0x09, CHR 0x09] @ ''}'' @ [CHR 0x0A, CHR 0x09, CHR 0x09])"
proof -
  have c: "''created_at'' \<in> set [''id'', ''created_at'', ''updated_at'']" by simp
  have u: "''updated_at'' \<in> set [''id'', ''created_at'', ''updated_at'']" by simp
  note t = generated_methods_set_timestamps
    [of "''Alert''" "[''id'', ''created_at'', ''updated_at'']" "[]"]
  have e1: "generate_Insert ''Alert'' [''id'', ''created_at'', ''updated_at''] [] =
       ''func (s *'' @ ''Alert'' @ '') Insert(tx *sqlx.Tx) error {'' @ [CHR 0x0A] @
         ''s.CreatedAt = time.Now()'' @ [CHR 0x0A] @
         ''s.UpdatedAt = time.Now()'' @ [CHR 0x0A] @
         [CHR 0x0A, CHR 0x09, CHR 0x09, CHR 0x09] @ ''_, err := tx.NamedExec(string(query'' @ ''Alert'' @ ''Insert), s)'' @
         [CHR 0x0A, CHR 0x09, CHR 0x09, CHR 0x09] @ ''return err'' @ [CHR 0x0A, CHR 0x09, CHR 0x09] @ ''}'' @ [CHR 0x0A, CHR 0x09, CHR 0x09]"
    using t [THEN conjunct1] by simp
  have e2: "generate_Update ''Alert'' [''id'', ''created_at'', ''updated_at''] [] =
       ''func (s *'' @ ''Alert'' @ '') Update(tx *sqlx.Tx) error {'' @ [CHR 0x0A] @
         ''s.UpdatedAt = time.Now()'' @ [CHR 0x0A] @
         '' _, err := tx.NamedExec(string(query'' @ ''Alert'' @ ''Update), s)'' @
         [CHR 0x0A, CHR 0x09, CHR 0x09, CHR 0x09] @ ''return err'' @ [CHR 0x0A, CHR 0x09, CHR 0x09] @ ''}'' @ [CHR 0x0A, CHR 0x09, CHR 0x09]"
    using t [THEN conjunct2, THEN conjunct1] by simp
  have e3: "generate_InsertOrUpdate ''Alert'' [''id'', ''created_at'', ''updated_at''] [] =
       ''func (s *'' @ ''Alert'' @ '') InsertOrUpdate(tx *sqlx.Tx) error {'' @ [CHR 0x0A] @
         ''s.UpdatedAt = time.Now()'' @ [CHR 0x0A] @
         [CHR 0x0A, CHR 0x09, CHR 0x09, CHR 0x09] @ ''_, err := tx.NamedExec(string(query'' @ ''Alert'' @ ''InsertOrUpdate), s)'' @
         [CHR 0x0A, CHR 0x09, CHR 0x09, CHR 0x09] @ ''return err'' @ [CHR 0x0A, CHR 0x09, CHR 0x09] @ ''}'' @ [CHR 0x0A, CHR 0x09, CHR 0x09]"
    using t [THEN conjunct2, THEN conjunct2, THEN conjunct1] by simp
  have x1: "(\<exists>pre post. generate_Insert ''Alert'' [''id'', ''created_at'', ''updated_at''] [] =
         [] @ ''func (s *'' @ ''Alert'' @ '') Insert(tx *sqlx.Tx) error {'' @ [CHR 0x0A] @
         pre @ ''s.CreatedAt = time.Now()'' @ [CHR 0x0A] @ post @
         [CHR 0x0A, CHR 0x09, CHR 0x09, CHR 0x09] @ ''_, err := tx.NamedExec(string(query'' @ ''Alert'' @ ''Insert), s)'' @
         [CHR 0x0A, CHR 0x09, CHR 0x09, CHR 0x09] @ ''return err'' @ [CHR 0x0A, CHR 0x09, CHR 0x09] @ ''}'' @ [CHR 0x0A, CHR 0x09, CHR 0x09])"
    using t c by blast
  have x2: "(\<exists>pre post. generate_Update ''Alert'' [''id'', ''created_at'', ''updated_at''] [] =
         [] @ ''func (s *'' @ ''Alert'' @ '') Update(tx *sqlx.Tx) error {'' @ [CHR 0x0A] @
         pre @ ''s.UpdatedAt = time.Now()'' @ [CHR 0x0A] @ post @
         '' _, err := tx.NamedExec(string(query'' @ ''Alert'' @ ''Update), s)'' @
         [CHR 0x0A, CHR 0x09, CHR 0x09, CHR 0x09] @ ''return err'' @ [CHR 0x0A, CHR 0x09, CHR 0x09] @ ''}'' @ [CHR 0x0A, CHR 0x09, CHR 0x09])"
    using t u by blast
  show ?thesis
    using c u e1 e2 e3 x1 x2 by blast
qed

end
